theory Spec2Isabelle
  imports Complex_Main
begin

section \<open>Pre-delinquency risk prototype: the scoring core of app_prototype.py\<close>

text \<open>
  The embedding follows \<^verbatim>\<open>src/app_prototype.py\<close>. Python's \<^verbatim>\<open>float\<close> values are
  read as real numbers and its \<^verbatim>\<open>int\<close> values as integers, converted to reals where
  Python converts them to \<^verbatim>\<open>float\<close> (an \<^verbatim>\<open>int\<close> times a \<^verbatim>\<open>float\<close>). The draw
  \<^verbatim>\<open>random.uniform(-0.05, 0.05)\<close> is the only effect of the scoring function; it is
  made explicit as the argument \<open>jitter\<close>.
\<close>

subsection \<open>The feature dictionary\<close>

text \<open>
  \<^verbatim>\<open>features\<close> is the dictionary literal of lines 100--108: it always has the same
  seven keys, so it is a record with one field per key. The sliders of lines 72--91 that
  fill it yield \<^verbatim>\<open>int\<close> for integer bounds and \<^verbatim>\<open>float\<close> for the two percentages.
\<close>

record features =
  salary_delay_days :: int
  savings_drop_pct :: real
  utility_payment_delay_days :: int
  discretionary_spend_drop_pct :: real
  atm_withdrawal_increase :: int
  upi_lending_txn_count :: int
  failed_autodebit_count :: int

text \<open>The bounds of the seven sliders (lines 72--91): minimum and maximum of each.\<close>

definition slider_domain :: "features \<Rightarrow> bool" where
  "slider_domain f =
     (0 \<le> salary_delay_days f \<and> salary_delay_days f \<le> 30 \<and>
      0 \<le> savings_drop_pct f \<and> savings_drop_pct f \<le> 1 \<and>
      0 \<le> utility_payment_delay_days f \<and> utility_payment_delay_days f \<le> 30 \<and>
      0 \<le> discretionary_spend_drop_pct f \<and> discretionary_spend_drop_pct f \<le> 1 \<and>
      0 \<le> atm_withdrawal_increase f \<and> atm_withdrawal_increase f \<le> 20 \<and>
      0 \<le> upi_lending_txn_count f \<and> upi_lending_txn_count f \<le> 10 \<and>
      0 \<le> failed_autodebit_count f \<and> failed_autodebit_count f \<le> 5)"

text \<open>The range of \<^verbatim>\<open>random.uniform(-0.05, 0.05)\<close> (line 29).\<close>

definition jitter_range :: "real \<Rightarrow> bool" where
  "jitter_range jitter = (- 0.05 \<le> jitter \<and> jitter \<le> 0.05)"

subsection \<open>mock_predict (lines 15--41)\<close>

text \<open>Lines 18--26: the first value bound to \<^verbatim>\<open>risk_score\<close>, before the jitter.\<close>

definition raw_score :: "features \<Rightarrow> real" where
  "raw_score f =
     real_of_int (salary_delay_days f) * 0.03 +
     savings_drop_pct f * 0.4 +
     real_of_int (utility_payment_delay_days f) * 0.02 +
     discretionary_spend_drop_pct f * 0.2 +
     real_of_int (atm_withdrawal_increase f) * 0.02 +
     real_of_int (upi_lending_txn_count f) * 0.05 +
     real_of_int (failed_autodebit_count f) * 0.08"

text \<open>Lines 32--39: the \<^verbatim>\<open>if\<close>/\<^verbatim>\<open>elif\<close> chain on the final \<^verbatim>\<open>risk_score\<close>.\<close>

definition risk_level_of :: "real \<Rightarrow> string" where
  "risk_level_of risk_score =
     (if risk_score \<ge> 0.75 then ''Critical''
      else if risk_score \<ge> 0.5 then ''High''
      else if risk_score \<ge> 0.25 then ''Medium''
      else ''Low'')"

definition mock_predict :: "features \<Rightarrow> real \<Rightarrow> real \<times> string" where
  "mock_predict f jitter =
     (let risk_score = raw_score f;
          risk_score = min 1.0 (risk_score + jitter);
          risk_level = risk_level_of risk_score
      in (risk_score, risk_level))"

subsection \<open>get_recommendation (lines 43--51)\<close>

text \<open>The dictionary literal \<^verbatim>\<open>recs\<close>, in the order it is written.\<close>

definition recs :: "(string \<times> string) list" where
  "recs =
     [(''Critical'', ''Immediate intervention - Offer payment holiday or loan restructuring''),
      (''High'', ''Priority contact - Propose debt consolidation plan''),
      (''Medium'', ''Schedule check-in call - Offer financial counseling''),
      (''Low'', ''Continue standard monitoring'')]"

text \<open>
  \<^verbatim>\<open>recs.get(risk_level, 'Monitor regularly')\<close>: a lookup with a default, so a missing
  key is not an error. The argument is a string, as every \<^verbatim>\<open>risk_level\<close> that
  \<^verbatim>\<open>mock_predict\<close> returns is.
\<close>

definition get_recommendation :: "string \<Rightarrow> string" where
  "get_recommendation risk_level =
     (case map_of recs risk_level of
        Some r \<Rightarrow> r
      | None \<Rightarrow> ''Monitor regularly'')"

subsection \<open>The Impact column of factors_df (lines 178--186)\<close>

text \<open>
  The page computes the column from the slider values, the same values it has stored in
  \<^verbatim>\<open>features\<close>; the list has one label per indicator, in the order of the source.
\<close>

definition factors_df_impact :: "features \<Rightarrow> string list" where
  "factors_df_impact f =
     [if salary_delay_days f > 15 then ''High''
      else if salary_delay_days f > 7 then ''Medium'' else ''Low'',
      if savings_drop_pct f > 0.5 then ''High''
      else if savings_drop_pct f > 0.2 then ''Medium'' else ''Low'',
      if utility_payment_delay_days f > 15 then ''High''
      else if utility_payment_delay_days f > 7 then ''Medium'' else ''Low'',
      if discretionary_spend_drop_pct f > 0.5 then ''High''
      else if discretionary_spend_drop_pct f > 0.2 then ''Medium'' else ''Low'',
      if atm_withdrawal_increase f > 10 then ''High''
      else if atm_withdrawal_increase f > 5 then ''Medium'' else ''Low'',
      if upi_lending_txn_count f > 5 then ''High''
      else if upi_lending_txn_count f > 2 then ''Medium'' else ''Low'',
      if failed_autodebit_count f > 2 then ''High''
      else if failed_autodebit_count f > 0 then ''Medium'' else ''Low'']"

subsection \<open>The specification's tables\<close>

text \<open>
  The seven indicator values as the specification lists them, as reals, and the weight
  table of its section 4.1. These follow the specification's words and are compared
  with the definitions above.
\<close>

definition indicator_values :: "features \<Rightarrow> real list" where
  "indicator_values f =
     [real_of_int (salary_delay_days f),
      savings_drop_pct f,
      real_of_int (utility_payment_delay_days f),
      discretionary_spend_drop_pct f,
      real_of_int (atm_withdrawal_increase f),
      real_of_int (upi_lending_txn_count f),
      real_of_int (failed_autodebit_count f)]"

definition spec_weights :: "real list" where
  "spec_weights = [0.03, 0.40, 0.02, 0.20, 0.02, 0.05, 0.08]"

definition spec_weighted_sum :: "features \<Rightarrow> real" where
  "spec_weighted_sum f =
     sum_list (map (\<lambda>(v, w). v * w) (zip (indicator_values f) spec_weights))"

text \<open>The level bands of section 4.1, step 4: first match wins, else Low.\<close>

definition spec_level_bands :: "(real \<times> string) list" where
  "spec_level_bands = [(0.75, ''Critical''), (0.50, ''High''), (0.25, ''Medium'')]"

definition spec_risk_level :: "real \<Rightarrow> string" where
  "spec_risk_level s =
     (case find (\<lambda>(t, l). s \<ge> t) spec_level_bands of
        Some (t, l) \<Rightarrow> l
      | None \<Rightarrow> ''Low'')"

text \<open>The impact table of section 4.1, step 5: (High if >, Medium if >) per indicator.\<close>

definition spec_impact_thresholds :: "(real \<times> real) list" where
  "spec_impact_thresholds =
     [(15, 7), (0.5, 0.2), (15, 7), (0.5, 0.2), (10, 5), (5, 2), (2, 0)]"

definition spec_impact :: "real \<Rightarrow> real \<times> real \<Rightarrow> string" where
  "spec_impact v th =
     (if v > fst th then ''High'' else if v > snd th then ''Medium'' else ''Low'')"

subsection \<open>Records used in the scenarios\<close>

text \<open>All sliders at their default (lines 72--91: the fourth argument, 0).\<close>

definition zero_features :: features where
  "zero_features =
     \<lparr>salary_delay_days = 0, savings_drop_pct = 0,
      utility_payment_delay_days = 0, discretionary_spend_drop_pct = 0,
      atm_withdrawal_increase = 0, upi_lending_txn_count = 0,
      failed_autodebit_count = 0\<rparr>"

text \<open>All sliders at their maximum.\<close>

definition max_features :: features where
  "max_features =
     \<lparr>salary_delay_days = 30, savings_drop_pct = 1,
      utility_payment_delay_days = 30, discretionary_spend_drop_pct = 1,
      atm_withdrawal_increase = 20, upi_lending_txn_count = 10,
      failed_autodebit_count = 5\<rparr>"

text \<open>Two records compared field by field.\<close>

definition features_le :: "features \<Rightarrow> features \<Rightarrow> bool" where
  "features_le f g =
     (salary_delay_days f \<le> salary_delay_days g \<and>
      savings_drop_pct f \<le> savings_drop_pct g \<and>
      utility_payment_delay_days f \<le> utility_payment_delay_days g \<and>
      discretionary_spend_drop_pct f \<le> discretionary_spend_drop_pct g \<and>
      atm_withdrawal_increase f \<le> atm_withdrawal_increase g \<and>
      upi_lending_txn_count f \<le> upi_lending_txn_count g \<and>
      failed_autodebit_count f \<le> failed_autodebit_count g)"

text \<open>
  Two records that agree on every indicator except, possibly, the one at position \<open>i\<close>
  (positions as in the Impact column, from 0).
\<close>

definition agree_except :: "nat \<Rightarrow> features \<Rightarrow> features \<Rightarrow> bool" where
  "agree_except i f g =
     ((i = 0 \<or> salary_delay_days f = salary_delay_days g) \<and>
      (i = 1 \<or> savings_drop_pct f = savings_drop_pct g) \<and>
      (i = 2 \<or> utility_payment_delay_days f = utility_payment_delay_days g) \<and>
      (i = 3 \<or> discretionary_spend_drop_pct f = discretionary_spend_drop_pct g) \<and>
      (i = 4 \<or> atm_withdrawal_increase f = atm_withdrawal_increase g) \<and>
      (i = 5 \<or> upi_lending_txn_count f = upi_lending_txn_count g) \<and>
      (i = 6 \<or> failed_autodebit_count f = failed_autodebit_count g))"

section \<open>Shared facts\<close>

lemma mock_predict_score: "fst (mock_predict f jitter) = min 1 (raw_score f + jitter)"
  by (simp add: mock_predict_def Let_def)

lemma mock_predict_level:
  "snd (mock_predict f jitter) = risk_level_of (fst (mock_predict f jitter))"
  by (simp add: mock_predict_def Let_def)

lemma raw_score_nonneg: "slider_domain f \<Longrightarrow> 0 \<le> raw_score f"
  by (simp add: slider_domain_def raw_score_def)

section \<open>The weighted sum\<close>

text \<open>
  C1. For every indicator record and every jitter value, the score that
  \<open>mock_predict\<close> computes before jitter and clamping is
  salary_delay_days * 0.03 + savings_drop_pct * 0.40 + utility_payment_delay_days * 0.02 +
  discretionary_spend_drop_pct * 0.20 + atm_withdrawal_increase * 0.02 +
  upi_lending_txn_count * 0.05 + failed_autodebit_count * 0.08: the sum over the seven
  indicators of value times weight, with the weights of the specification's table; the
  returned score is that sum plus the jitter, capped at 1.
\<close>

theorem mock_predict_raw_is_weighted_sum:
  "raw_score f =
     real_of_int (salary_delay_days f) * 0.03 + savings_drop_pct f * 0.40 +
     real_of_int (utility_payment_delay_days f) * 0.02 +
     discretionary_spend_drop_pct f * 0.20 +
     real_of_int (atm_withdrawal_increase f) * 0.02 +
     real_of_int (upi_lending_txn_count f) * 0.05 +
     real_of_int (failed_autodebit_count f) * 0.08
   \<and> raw_score f = spec_weighted_sum f
   \<and> fst (mock_predict f jitter) = min 1 (spec_weighted_sum f + jitter)"
  by (simp add: mock_predict_score raw_score_def spec_weighted_sum_def
      indicator_values_def spec_weights_def)

section \<open>The risk level\<close>

text \<open>
  C2. The risk level that \<open>mock_predict\<close> returns is decided from the returned score
  (after jitter and clamping) by the first matching test, in this order, each with
  \<open>\<ge>\<close>: at least 0.75 is Critical, otherwise at least 0.5 is High, otherwise at least
  0.25 is Medium, otherwise Low. A score of exactly 0.75 is Critical, 0.749999 is High,
  exactly 0.5 is High, exactly 0.25 is Medium, and every score below 0.25 is Low.
\<close>

theorem mock_predict_level_thresholds:
  "snd (mock_predict f jitter) =
     (if fst (mock_predict f jitter) \<ge> 0.75 then ''Critical''
      else if fst (mock_predict f jitter) \<ge> 0.5 then ''High''
      else if fst (mock_predict f jitter) \<ge> 0.25 then ''Medium''
      else ''Low'')
   \<and> snd (mock_predict f jitter) = spec_risk_level (fst (mock_predict f jitter))
   \<and> mock_predict (zero_features\<lparr>salary_delay_days := 25\<rparr>) 0 = (0.75, ''Critical'')
   \<and> mock_predict (zero_features\<lparr>salary_delay_days := 25\<rparr>) (- 0.000001)
       = (0.749999, ''High'')
   \<and> mock_predict (zero_features\<lparr>upi_lending_txn_count := 10\<rparr>) 0 = (0.5, ''High'')
   \<and> mock_predict (zero_features\<lparr>upi_lending_txn_count := 5\<rparr>) 0 = (0.25, ''Medium'')
   \<and> (fst (mock_predict f jitter) < 0.25 \<longrightarrow> snd (mock_predict f jitter) = ''Low'')"
proof -
  have chain: "snd (mock_predict f jitter) =
     (if fst (mock_predict f jitter) \<ge> 0.75 then ''Critical''
      else if fst (mock_predict f jitter) \<ge> 0.5 then ''High''
      else if fst (mock_predict f jitter) \<ge> 0.25 then ''Medium''
      else ''Low'')"
    by (simp only: mock_predict_level risk_level_of_def)
  have bands: "risk_level_of s = spec_risk_level s" for s
    by (simp add: risk_level_of_def spec_risk_level_def spec_level_bands_def)
  have a: "mock_predict (zero_features\<lparr>salary_delay_days := 25\<rparr>) 0 = (0.75, ''Critical'')"
    by (simp add: mock_predict_def raw_score_def risk_level_of_def zero_features_def Let_def)
  have b: "mock_predict (zero_features\<lparr>salary_delay_days := 25\<rparr>) (- 0.000001)
       = (0.749999, ''High'')"
    by (simp add: mock_predict_def raw_score_def risk_level_of_def zero_features_def Let_def)
  have c: "mock_predict (zero_features\<lparr>upi_lending_txn_count := 10\<rparr>) 0 = (0.5, ''High'')"
    by (simp add: mock_predict_def raw_score_def risk_level_of_def zero_features_def Let_def)
  have d: "mock_predict (zero_features\<lparr>upi_lending_txn_count := 5\<rparr>) 0 = (0.25, ''Medium'')"
    by (simp add: mock_predict_def raw_score_def risk_level_of_def zero_features_def Let_def)
  have e: "fst (mock_predict f jitter) < 0.25 \<longrightarrow> snd (mock_predict f jitter) = ''Low''"
    by (simp add: mock_predict_level risk_level_of_def)
  from chain bands a b c d e show ?thesis
    by (simp only: mock_predict_level simp_thms)
qed

text \<open>The all-zero record with no jitter scores 0, below 0.25, and is Low.\<close>

theorem mock_predict_level_thresholds_witness:
  "fst (mock_predict zero_features 0) < 0.25 \<and> snd (mock_predict zero_features 0) = ''Low''"
proof -
  have h: "fst (mock_predict zero_features 0) < 0.25"
    by (simp add: mock_predict_score raw_score_def zero_features_def)
  with mock_predict_level_thresholds [of zero_features 0] show ?thesis by blast
qed

section \<open>Bounds on the score\<close>

text \<open>
  C3. The claim is that every record inside the slider bounds and every jitter in
  [-0.05, 0.05] give a score between 0 and 1. Line 29 caps the score at 1 and has no
  floor: with every slider at its default and the jitter at -0.05 the returned score is
  -0.05, which is below 0, although the page describes the score as 0--100\%.
\<close>

theorem mock_predict_default_negative_jitter:
  "slider_domain zero_features \<and> jitter_range (- 0.05)
   \<and> mock_predict zero_features (- 0.05) = (- 0.05, ''Low'')
   \<and> \<not> 0 \<le> fst (mock_predict zero_features (- 0.05))"
  by (simp add: slider_domain_def jitter_range_def mock_predict_def raw_score_def
      risk_level_of_def zero_features_def Let_def)

text \<open>
  C4. For every record inside the slider bounds and every jitter in [-0.05, 0.05], the
  returned score is at most 1; it is min(1, raw + jitter), with no floor at 0: a negative
  raw + jitter is returned as it is.
\<close>

theorem mock_predict_upper_clamp_only:
  assumes "slider_domain f" and "jitter_range jitter"
  shows "fst (mock_predict f jitter) \<le> 1
   \<and> fst (mock_predict f jitter) = min 1 (raw_score f + jitter)
   \<and> (raw_score f + jitter < 0 \<longrightarrow> fst (mock_predict f jitter) = raw_score f + jitter)"
  by (simp add: mock_predict_score)

theorem mock_predict_upper_clamp_only_witness:
  "slider_domain zero_features \<and> jitter_range (- 0.02)
   \<and> raw_score zero_features + (- 0.02) < 0
   \<and> fst (mock_predict zero_features (- 0.02)) \<le> 1
   \<and> fst (mock_predict zero_features (- 0.02)) = - 0.02"
proof -
  have d: "slider_domain zero_features"
    by (simp add: slider_domain_def zero_features_def)
  have j: "jitter_range (- 0.02)"
    by (simp add: jitter_range_def)
  have r: "raw_score zero_features = 0"
    by (simp add: raw_score_def zero_features_def)
  from mock_predict_upper_clamp_only [OF d j] d j r show ?thesis by simp
qed

text \<open>
  The last part of C9 says that the score never falls below raw + jitter. With every
  slider at its maximum and no jitter, raw + jitter is 3.4 and the score is capped at 1.
\<close>

theorem score_below_raw_plus_jitter:
  "slider_domain max_features \<and> jitter_range 0
   \<and> raw_score max_features + 0 = 3.4
   \<and> fst (mock_predict max_features 0) = 1
   \<and> \<not> raw_score max_features + 0 \<le> fst (mock_predict max_features 0)"
  by (simp add: slider_domain_def jitter_range_def mock_predict_score raw_score_def
      max_features_def)

text \<open>
  C9, amended. For every record inside the slider bounds (so every field is non-negative)
  and every jitter in [-0.05, 0.05], the returned score is at least -0.05; it is negative
  only when the raw weighted sum is below 0.05; and it never falls below
  min(1, raw + jitter), so it is at least raw + jitter whenever raw + jitter is at most 1.
\<close>

theorem mock_predict_lower_bound:
  assumes "slider_domain f" and "jitter_range jitter"
  shows "- 0.05 \<le> fst (mock_predict f jitter)
   \<and> (fst (mock_predict f jitter) < 0 \<longrightarrow> raw_score f < 0.05)
   \<and> min 1 (raw_score f + jitter) \<le> fst (mock_predict f jitter)
   \<and> (raw_score f + jitter \<le> 1 \<longrightarrow> raw_score f + jitter \<le> fst (mock_predict f jitter))"
proof -
  from assms(1) have "0 \<le> raw_score f" by (rule raw_score_nonneg)
  moreover from assms(2) have "- 0.05 \<le> jitter" by (simp add: jitter_range_def)
  ultimately show ?thesis by (auto simp: mock_predict_score min_def)
qed

theorem mock_predict_lower_bound_witness:
  "slider_domain zero_features \<and> jitter_range (- 0.03)
   \<and> fst (mock_predict zero_features (- 0.03)) < 0
   \<and> raw_score zero_features + (- 0.03) \<le> 1
   \<and> - 0.05 \<le> fst (mock_predict zero_features (- 0.03))
   \<and> raw_score zero_features < 0.05
   \<and> raw_score zero_features + (- 0.03) \<le> fst (mock_predict zero_features (- 0.03))"
proof -
  have d: "slider_domain zero_features"
    by (simp add: slider_domain_def zero_features_def)
  have j: "jitter_range (- 0.03)"
    by (simp add: jitter_range_def)
  have n: "fst (mock_predict zero_features (- 0.03)) < 0"
    by (simp add: mock_predict_score raw_score_def zero_features_def)
  have u: "raw_score zero_features + (- 0.03) \<le> 1"
    by (simp add: raw_score_def zero_features_def)
  from mock_predict_lower_bound [OF d j] d j n u show ?thesis by blast
qed

text \<open>
  C10. For a fixed jitter, the returned score is monotone in the indicators: when the
  second record is field by field at least the first, its score is at least the first's.
\<close>

theorem mock_predict_monotone:
  assumes "features_le f g"
  shows "fst (mock_predict f jitter) \<le> fst (mock_predict g jitter)"
proof -
  from assms have "raw_score f \<le> raw_score g"
    by (simp add: features_le_def raw_score_def add_mono)
  then show ?thesis by (simp add: mock_predict_score min_def)
qed

theorem mock_predict_monotone_witness:
  "features_le (zero_features\<lparr>upi_lending_txn_count := 3\<rparr>)
     (zero_features\<lparr>upi_lending_txn_count := 8\<rparr>)
   \<and> fst (mock_predict (zero_features\<lparr>upi_lending_txn_count := 3\<rparr>) 0.01) = 0.16
   \<and> fst (mock_predict (zero_features\<lparr>upi_lending_txn_count := 8\<rparr>) 0.01) = 0.41
   \<and> fst (mock_predict (zero_features\<lparr>upi_lending_txn_count := 3\<rparr>) 0.01)
       \<le> fst (mock_predict (zero_features\<lparr>upi_lending_txn_count := 8\<rparr>) 0.01)"
proof -
  have l: "features_le (zero_features\<lparr>upi_lending_txn_count := 3\<rparr>)
     (zero_features\<lparr>upi_lending_txn_count := 8\<rparr>)"
    by (simp add: features_le_def zero_features_def)
  have a: "fst (mock_predict (zero_features\<lparr>upi_lending_txn_count := 3\<rparr>) 0.01) = 0.16"
    by (simp add: mock_predict_score raw_score_def zero_features_def)
  have b: "fst (mock_predict (zero_features\<lparr>upi_lending_txn_count := 8\<rparr>) 0.01) = 0.41"
    by (simp add: mock_predict_score raw_score_def zero_features_def)
  from mock_predict_monotone [OF l, of "0.01"] l a b show ?thesis by blast
qed

section \<open>The recommendation\<close>

text \<open>
  C5. \<open>get_recommendation\<close> is total: Critical gives "Immediate intervention - Offer
  payment holiday or loan restructuring", High gives "Priority contact - Propose debt
  consolidation plan", Medium gives "Schedule check-in call - Offer financial
  counseling", Low gives "Continue standard monitoring", and every other input gives the
  default "Monitor regularly". The lookup has no failing branch, and as a function it
  returns the same string for the same input.
\<close>

theorem get_recommendation_total:
  "get_recommendation ''Critical''
     = ''Immediate intervention - Offer payment holiday or loan restructuring''
   \<and> get_recommendation ''High'' = ''Priority contact - Propose debt consolidation plan''
   \<and> get_recommendation ''Medium'' = ''Schedule check-in call - Offer financial counseling''
   \<and> get_recommendation ''Low'' = ''Continue standard monitoring''
   \<and> (x \<notin> {''Critical'', ''High'', ''Medium'', ''Low''}
        \<longrightarrow> get_recommendation x = ''Monitor regularly'')"
  by (simp add: get_recommendation_def recs_def)

theorem get_recommendation_total_witness:
  "''Unknown'' \<notin> {''Critical'', ''High'', ''Medium'', ''Low''}
   \<and> get_recommendation ''Unknown'' = ''Monitor regularly''"
proof -
  have h: "''Unknown'' \<notin> {''Critical'', ''High'', ''Medium'', ''Low''}" by simp
  with get_recommendation_total [of "''Unknown''"] show ?thesis by blast
qed

section \<open>The impact labels\<close>

text \<open>
  C6. Each of the seven impact labels is a three-tier function of its own indicator
  alone, with strict \<open>>\<close> tests, High first, then Medium, else Low, and the thresholds
  (High, Medium): salary delay (15, 7), savings drop (0.5, 0.2), utility delay (15, 7),
  spending drop (0.5, 0.2), ATM increase (10, 5), lending transactions (5, 2), failed
  debits (2, 0). A salary delay of 16 is High, 8 is Medium and 7 is Low.
\<close>

theorem factors_df_impact_thresholds:
  "factors_df_impact f
     = map (\<lambda>(v, th). spec_impact v th) (zip (indicator_values f) spec_impact_thresholds)
   \<and> factors_df_impact (zero_features\<lparr>salary_delay_days := 16\<rparr>) ! 0 = ''High''
   \<and> factors_df_impact (zero_features\<lparr>salary_delay_days := 8\<rparr>) ! 0 = ''Medium''
   \<and> factors_df_impact (zero_features\<lparr>salary_delay_days := 7\<rparr>) ! 0 = ''Low''"
  by (simp add: factors_df_impact_def indicator_values_def spec_impact_thresholds_def
      spec_impact_def zero_features_def)

text \<open>
  C8. When two records agree on six indicators and differ only in the seventh, the
  impact labels of the six unchanged indicators are the same for both; only the label
  of the changed indicator can differ.
\<close>

theorem factors_df_impact_independent:
  assumes "agree_except i f g" and "k < 7" and "k \<noteq> i"
  shows "factors_df_impact f ! k = factors_df_impact g ! k"
proof -
  from \<open>k < 7\<close> consider "k = 0" | "k = 1" | "k = 2" | "k = 3" | "k = 4" | "k = 5" | "k = 6"
    by linarith
  then show ?thesis
    using assms(1,3) by cases (auto simp: agree_except_def factors_df_impact_def)
qed

text \<open>
  Raising the salary delay from 0 to 16 changes the first label and leaves the second.
\<close>

theorem factors_df_impact_independent_witness:
  "agree_except 0 zero_features (zero_features\<lparr>salary_delay_days := 16\<rparr>)
   \<and> (1::nat) < 7 \<and> (1::nat) \<noteq> 0
   \<and> factors_df_impact zero_features ! 1
       = factors_df_impact (zero_features\<lparr>salary_delay_days := 16\<rparr>) ! 1
   \<and> factors_df_impact zero_features ! 0
       \<noteq> factors_df_impact (zero_features\<lparr>salary_delay_days := 16\<rparr>) ! 0"
proof -
  have a: "agree_except 0 zero_features (zero_features\<lparr>salary_delay_days := 16\<rparr>)"
    by (simp add: agree_except_def zero_features_def)
  have c: "factors_df_impact zero_features ! 0
       \<noteq> factors_df_impact (zero_features\<lparr>salary_delay_days := 16\<rparr>) ! 0"
    by (simp add: factors_df_impact_def zero_features_def)
  from factors_df_impact_independent [OF a, of 1] a c show ?thesis by simp
qed

section \<open>The scenario with every slider at its maximum\<close>

text \<open>
  C7. For the record 30, 1.0, 30, 1.0, 20, 10, 5 with the jitter fixed at 0.0, the raw
  weighted sum is 3.4, the clamped score is 1.0, the level is Critical, the
  recommendation for that level is "Immediate intervention - Offer payment holiday or
  loan restructuring", and all seven impact labels are High.
\<close>

theorem max_features_scenario:
  "raw_score max_features = 3.4
   \<and> mock_predict max_features 0.0 = (1.0, ''Critical'')
   \<and> get_recommendation (snd (mock_predict max_features 0.0))
       = ''Immediate intervention - Offer payment holiday or loan restructuring''
   \<and> factors_df_impact max_features
       = [''High'', ''High'', ''High'', ''High'', ''High'', ''High'', ''High'']"
proof -
  have r: "raw_score max_features = 3.4"
    by (simp add: raw_score_def max_features_def)
  have p: "mock_predict max_features 0.0 = (1.0, ''Critical'')"
    by (simp add: mock_predict_def r risk_level_of_def Let_def)
  have g: "get_recommendation ''Critical''
       = ''Immediate intervention - Offer payment holiday or loan restructuring''"
    by (simp add: get_recommendation_def recs_def)
  have i: "factors_df_impact max_features
       = [''High'', ''High'', ''High'', ''High'', ''High'', ''High'', ''High'']"
    by (simp add: factors_df_impact_def max_features_def)
  from r p g i show ?thesis by simp
qed

end
